theory Spec2Isabelle
  imports Complex_Main "HOL-Library.Word"
begin

section \<open>The sales ETL pipeline of \<^verbatim>\<open>Root/ETL.py\<close>\<close>

text \<open>
  The pipeline loads two JSON arrays of flat records into pandas data frames
  (\<^verbatim>\<open>extract_from_raw\<close>), cleans them (\<^verbatim>\<open>transform_to_silver\<close>) and derives a star
  schema from the cleaned sales table (\<^verbatim>\<open>model_to_gold\<close>).

  A data frame is modelled as the list of its rows, in index order, and a row as a record
  with one field per column that the code names. pandas builds the columns of a frame
  from the keys of the JSON records: the frame of a non-empty array is taken to have
  every column the code names, and the frame of an empty array has no column at all,
  which the store records for each frame.
\<close>

subsection \<open>Cells\<close>

text \<open>
  A cell of a frame built from JSON scalars. \<open>Null\<close> stands for every missing value
  (\<^verbatim>\<open>None\<close>, \<^verbatim>\<open>NaN\<close>, and \<^verbatim>\<open>NaT\<close> in a date column): \<^verbatim>\<open>fillna\<close>, \<^verbatim>\<open>drop_duplicates\<close> and
  \<^verbatim>\<open>merge\<close> do not tell them apart. A number is its exact value, so that \<^verbatim>\<open>1\<close>, \<^verbatim>\<open>1.0\<close>
  and \<^verbatim>\<open>True\<close> are one cell, as they are one key for Python's \<^verbatim>\<open>==\<close> and \<^verbatim>\<open>hash\<close>.
  The cells of a frame are the values as pandas stores them: the rounding of a number
  to a 64-bit float happens when \<^verbatim>\<open>pd.DataFrame\<close> builds the frame, before the first line
  of the cleaner. The infinities that Python's JSON reader accepts are left out.
\<close>

datatype cell = Null | NumV rat | StrV string

text \<open>
  The \<^verbatim>\<open>OrderDate\<close> column holds what the JSON file held until \<^verbatim>\<open>pd.to_datetime\<close> has run,
  and time stamps (nanoseconds since the epoch) afterwards. A missing date is
  \<open>Unparsed Null\<close> before and after.
\<close>

datatype date_cell = Unparsed cell | Parsed int

subsection \<open>Rows\<close>

record product_row =
  ProductKey :: cell
  Product_Name :: cell
  Brand :: cell
  Color :: cell
  Subcategory :: cell
  Category :: cell

record customer_row =
  CustomerKey :: cell
  Customer_Code :: cell
  Name :: cell
  Education :: cell
  Occupation :: cell

record geo_row =
  City :: cell
  State :: cell
  CountryRegion :: cell
  Continent :: cell
  GeoKey :: int

record fact_row =
  ProductKey :: cell
  CustomerKey :: cell
  GeoKey :: int
  OrderDate :: date_cell
  Quantity :: cell
  Net_Price :: cell

text \<open>The forecast table: the code names its \<^verbatim>\<open>Year\<close> column only.\<close>

record forecast_row =
  Year :: cell
  other_columns :: "(string \<times> cell) list"

text \<open>The sales table, with the eighteen columns the code names.\<close>

record sales_row =
  OrderDate :: date_cell
  Quantity :: cell
  Net_Price :: cell
  ProductKey :: cell
  Product_Name :: cell
  Brand :: cell
  Color :: cell
  Subcategory :: cell
  Category :: cell
  CustomerKey :: cell
  Customer_Code :: cell
  Name :: cell
  Education :: cell
  Occupation :: cell
  City :: cell
  State :: cell
  CountryRegion :: cell
  Continent :: cell

subsection \<open>The pandas operations the code calls\<close>

text \<open>
  \<^verbatim>\<open>DataFrame.duplicated()\<close> with the default \<^verbatim>\<open>keep='first'\<close>: a row is marked when an
  equal row stands before it. \<^verbatim>\<open>drop_duplicates()\<close> keeps the unmarked rows in their order.
  Rows are compared on all their columns, and missing values are equal to each other.
\<close>

fun duplicated_from :: "'a list \<Rightarrow> 'a list \<Rightarrow> bool list" where
  "duplicated_from seen [] = []"
| "duplicated_from seen (x # xs) = (x \<in> set seen) # duplicated_from (x # seen) xs"

definition duplicated :: "'a list \<Rightarrow> bool list" where
  "duplicated xs = duplicated_from [] xs"

definition unmarked :: "'a list \<Rightarrow> bool list \<Rightarrow> 'a list" where
  "unmarked xs marks = map fst (filter (\<lambda>(x, m). \<not> m) (zip xs marks))"

definition drop_duplicates :: "'a list \<Rightarrow> 'a list" where
  "drop_duplicates xs = unmarked xs (duplicated xs)"

text \<open>
  \<^verbatim>\<open>left.merge(right, on=keys)\<close>: the inner join (the default \<^verbatim>\<open>how\<close>). Every left row is
  paired with every right row that has the same key, in the order of the left rows. The key
  is the tuple of all \<^verbatim>\<open>on\<close> columns; pandas matches missing key values with each other
  (its documentation warns that this differs from SQL), which is what equality of \<open>Null\<close>
  cells gives.
\<close>

definition merge :: "('l \<Rightarrow> 'k) \<Rightarrow> ('r \<Rightarrow> 'k) \<Rightarrow> 'l list \<Rightarrow> 'r list \<Rightarrow> ('l \<times> 'r) list" where
  "merge lkey rkey left right =
     concat (map (\<lambda>l. map (Pair l) (filter (\<lambda>r. rkey r = lkey l) right)) left)"

text \<open>\<^verbatim>\<open>Series.fillna(v)\<close> on one cell.\<close>

definition fillna :: "cell \<Rightarrow> cell \<Rightarrow> cell" where
  "fillna v c = (if c = Null then v else c)"

subsection \<open>Python's \<^verbatim>\<open>str\<close> of an integer, for the printed lines\<close>

fun str_nat :: "nat \<Rightarrow> string" where
  "str_nat n =
     (if n < 10 then [''0123456789'' ! n]
      else str_nat (n div 10) @ [''0123456789'' ! (n mod 10)])"

declare str_nat.simps [simp del]

definition str_int :: "int \<Rightarrow> string" where
  "str_int i = (if i < 0 then ''-'' @ str_nat (nat (- i)) else str_nat (nat i))"

subsection \<open>Stage 3: \<^verbatim>\<open>model_to_gold\<close>\<close>

text \<open>The column selections \<^verbatim>\<open>df_sales[[...]]\<close> of lines 62, 63 and 65, on one row.\<close>

definition product_columns :: "sales_row \<Rightarrow> product_row" where
  "product_columns r =
     \<lparr>product_row.ProductKey = sales_row.ProductKey r,
      product_row.Product_Name = sales_row.Product_Name r,
      product_row.Brand = sales_row.Brand r,
      product_row.Color = sales_row.Color r,
      product_row.Subcategory = sales_row.Subcategory r,
      product_row.Category = sales_row.Category r\<rparr>"

definition customer_columns :: "sales_row \<Rightarrow> customer_row" where
  "customer_columns r =
     \<lparr>customer_row.CustomerKey = sales_row.CustomerKey r,
      customer_row.Customer_Code = sales_row.Customer_Code r,
      customer_row.Name = sales_row.Name r,
      customer_row.Education = sales_row.Education r,
      customer_row.Occupation = sales_row.Occupation r\<rparr>"

type_synonym geo = "cell \<times> cell \<times> cell \<times> cell"

definition geo_columns :: "sales_row \<Rightarrow> geo" where
  "geo_columns r =
     (sales_row.City r, sales_row.State r, sales_row.CountryRegion r, sales_row.Continent r)"

text \<open>The same four columns of a row of \<^verbatim>\<open>dim_geo\<close>: the right-hand key of the merge.\<close>

definition geo_of_dim :: "geo_row \<Rightarrow> geo" where
  "geo_of_dim g =
     (geo_row.City g, geo_row.State g, geo_row.CountryRegion g, geo_row.Continent g)"

text \<open>Python's \<^verbatim>\<open>range(1, n + 1)\<close>.\<close>

definition range1 :: "nat \<Rightarrow> int list" where
  "range1 n = map int [1 ..< n + 1]"

text \<open>Line 66: \<^verbatim>\<open>dim_geo['GeoKey'] = range(1, len(dim_geo) + 1)\<close>, on the deduplicated copy.\<close>

definition with_GeoKey :: "geo \<Rightarrow> int \<Rightarrow> geo_row" where
  "with_GeoKey t k =
     (case t of (c, s, cr, co) \<Rightarrow>
        \<lparr>geo_row.City = c, geo_row.State = s, geo_row.CountryRegion = cr,
         geo_row.Continent = co, geo_row.GeoKey = k\<rparr>)"

definition assign_GeoKey :: "geo list \<Rightarrow> geo_row list" where
  "assign_GeoKey ts = map2 with_GeoKey ts (range1 (length ts))"

text \<open>Line 70: the six columns selected from the merged frame.\<close>

definition fact_columns :: "sales_row \<times> geo_row \<Rightarrow> fact_row" where
  "fact_columns m =
     (case m of (r, g) \<Rightarrow>
        \<lparr>fact_row.ProductKey = sales_row.ProductKey r,
         fact_row.CustomerKey = sales_row.CustomerKey r,
         fact_row.GeoKey = geo_row.GeoKey g,
         fact_row.OrderDate = sales_row.OrderDate r,
         fact_row.Quantity = sales_row.Quantity r,
         fact_row.Net_Price = sales_row.Net_Price r\<rparr>)"

text \<open>Lines 85 to 88: the line printed by the integrity check.\<close>

definition integrity_line :: "int \<Rightarrow> int \<Rightarrow> string" where
  "integrity_line input_count len_fact_sales =
     (if len_fact_sales \<noteq> input_count
      then ''!! WARNING: '' @ str_int (input_count - len_fact_sales)
             @ '' rows lost during modeling merge!''
      else ''-> Data Integrity Check: Passed (Sales row count maintained)'')"

text \<open>
  \<^verbatim>\<open>model_to_gold\<close> returns nothing: its results are the five files it writes and the
  lines it prints, collected here in a record. It assigns to no column of its two
  arguments (line 66 assigns to a copy), so it is a function of their contents.

  The function is first written for any join in the place of the library call of line
  69, so that the integrity check of lines 85 to 88 can be studied on a join that loses
  rows; \<open>model_to_gold\<close> itself is the function with the pandas \<open>merge\<close>.
\<close>

record gold =
  fact_sales :: "fact_row list"
  fact_forecast :: "forecast_row list"
  dim_product :: "product_row list"
  dim_customer :: "customer_row list"
  dim_geo :: "geo_row list"
  printed :: "string list"

type_synonym join = "sales_row list \<Rightarrow> geo_row list \<Rightarrow> (sales_row \<times> geo_row) list"

definition model_to_gold_with :: "join \<Rightarrow> sales_row list \<Rightarrow> forecast_row list \<Rightarrow> gold" where
  "model_to_gold_with merge_on_geography df_sales df_forecast =
     (let input_count = int (length df_sales);
          dim_product = drop_duplicates (map product_columns df_sales);
          dim_customer = drop_duplicates (map customer_columns df_sales);
          dim_geo = assign_GeoKey (drop_duplicates (map geo_columns df_sales));
          fact_sales = map fact_columns (merge_on_geography df_sales dim_geo)
      in \<lparr>fact_sales = fact_sales,
          fact_forecast = df_forecast,
          dim_product = dim_product,
          dim_customer = dim_customer,
          dim_geo = dim_geo,
          printed =
            [CHR 0x0A # ''[GOLD VALIDATION]'',
             ''-> Dim_Product: '' @ str_nat (length dim_product) @ '' unique items'',
             ''-> Dim_Customer: '' @ str_nat (length dim_customer) @ '' unique customers'',
             ''-> Fact_Sales: '' @ str_nat (length fact_sales) @ '' rows'',
             integrity_line input_count (int (length fact_sales))]\<rparr>)"

definition model_to_gold :: "sales_row list \<Rightarrow> forecast_row list \<Rightarrow> gold" where
  "model_to_gold = model_to_gold_with (merge geo_columns geo_of_dim)"

subsection \<open>Stage 2: \<^verbatim>\<open>transform_to_silver\<close>\<close>

text \<open>
  Reading a column of a frame that has none raises \<^verbatim>\<open>KeyError\<close>, and the two library
  conversions raise on a value they reject. No exception is caught anywhere, so each of
  them ends the run.
\<close>

datatype error = KeyError | ToDatetimeError | AstypeError

text \<open>
  \<^verbatim>\<open>pd.to_datetime(column)\<close> with the default \<^verbatim>\<open>errors='raise'\<close>. A missing value becomes
  \<^verbatim>\<open>NaT\<close> and a time stamp stays as it is. Any other value goes through the library's
  parser, which is the parameter \<open>parse\<close>. It gets the whole column as well, since pandas
  may infer the date format from it, and it answers in one of three ways: the value is
  rejected, which makes the call raise; the value reads as a missing date (pandas reads
  the empty text and the texts \<^verbatim>\<open>nan\<close> and \<^verbatim>\<open>NaT\<close> so) and becomes \<^verbatim>\<open>NaT\<close>; or the value
  is a time stamp.
\<close>

datatype reading = Rejected | NaT | Stamp int

definition to_datetime_cell ::
    "(date_cell list \<Rightarrow> cell \<Rightarrow> reading) \<Rightarrow> date_cell list \<Rightarrow> date_cell \<Rightarrow> date_cell option" where
  "to_datetime_cell parse col d =
     (case d of
        Parsed t \<Rightarrow> Some (Parsed t)
      | Unparsed c \<Rightarrow>
          if c = Null then Some (Unparsed Null)
          else (case parse col c of
                  Rejected \<Rightarrow> None
                | NaT \<Rightarrow> Some (Unparsed Null)
                | Stamp t \<Rightarrow> Some (Parsed t)))"

definition to_datetime ::
    "(date_cell list \<Rightarrow> cell \<Rightarrow> reading) \<Rightarrow> date_cell list \<Rightarrow> error + date_cell list" where
  "to_datetime parse col =
     (case those (map (to_datetime_cell parse col) col) of
        None \<Rightarrow> Inl ToDatetimeError
      | Some dates \<Rightarrow> Inr dates)"

text \<open>
  \<^verbatim>\<open>column.astype(int)\<close>, a cast to 64-bit integers. A missing value raises. A number is
  cut off toward zero (what NumPy's cast of a float and Python's \<^verbatim>\<open>int\<close> of a float both
  do), and a text goes through Python's \<^verbatim>\<open>int\<close> of a string, which is the parameter
  \<open>int_of_str\<close>. An integer within the 64-bit range is stored. For an integer outside
  of it the outcome depends on the type pandas has inferred for the column and on the
  platform's cast (a float column wraps, a column of Python integers raises
  \<^verbatim>\<open>OverflowError\<close>): it is the parameter \<open>overflow\<close>, which gets the column and the integer
  and answers \<open>None\<close> when the cast raises and the 64-bit word that is stored otherwise.
\<close>

definition trunc :: "rat \<Rightarrow> int" where
  "trunc r = (if 0 \<le> r then \<lfloor>r\<rfloor> else \<lceil>r\<rceil>)"

definition in_int64 :: "int \<Rightarrow> bool" where
  "in_int64 n \<longleftrightarrow> - (2 ^ 63) \<le> n \<and> n < 2 ^ 63"

definition store_int64 :: "(cell list \<Rightarrow> int \<Rightarrow> 64 word option) \<Rightarrow> cell list \<Rightarrow> int \<Rightarrow> cell option" where
  "store_int64 overflow col n =
     (if in_int64 n then Some (NumV (of_int n))
      else map_option (\<lambda>w. NumV (of_int (sint w))) (overflow col n))"

definition astype_int_cell ::
    "(string \<Rightarrow> int option) \<Rightarrow> (cell list \<Rightarrow> int \<Rightarrow> 64 word option) \<Rightarrow>
     cell list \<Rightarrow> cell \<Rightarrow> cell option" where
  "astype_int_cell int_of_str overflow col c =
     (case c of
        Null \<Rightarrow> None
      | NumV r \<Rightarrow> store_int64 overflow col (trunc r)
      | StrV s \<Rightarrow>
          (case int_of_str s of
             None \<Rightarrow> None
           | Some n \<Rightarrow> store_int64 overflow col n))"

definition astype_int ::
    "(string \<Rightarrow> int option) \<Rightarrow> (cell list \<Rightarrow> int \<Rightarrow> 64 word option) \<Rightarrow>
     cell list \<Rightarrow> error + cell list" where
  "astype_int int_of_str overflow col =
     (case those (map (astype_int_cell int_of_str overflow col) col) of
        None \<Rightarrow> Inl AstypeError
      | Some ints \<Rightarrow> Inr ints)"

text \<open>
  The cleaner assigns to columns of the frames it is given, so the frames are objects in
  a store, addressed by a reference. For each frame the store tells its rows and whether
  it is a frame without columns. The store also holds the two files the cleaner writes
  (\<open>None\<close>: never written) and the lines printed so far.
\<close>

record world =
  sales_frames :: "nat \<Rightarrow> sales_row list"
  forecast_frames :: "nat \<Rightarrow> forecast_row list"
  sales_columnless :: "nat \<Rightarrow> bool"
  forecast_columnless :: "nat \<Rightarrow> bool"
  allocated :: nat
  cleaned_sales_csv :: "sales_row list option"
  cleaned_forecast_csv :: "forecast_row list option"
  stdout :: "string list"

text \<open>\<^verbatim>\<open>df[column] = values\<close>: the frame at the reference is replaced, row by row.\<close>

definition update_sales :: "nat \<Rightarrow> (sales_row list \<Rightarrow> sales_row list) \<Rightarrow> world \<Rightarrow> world" where
  "update_sales df f w = w\<lparr>sales_frames := (sales_frames w)(df := f (sales_frames w df))\<rparr>"

definition update_forecast ::
    "nat \<Rightarrow> (forecast_row list \<Rightarrow> forecast_row list) \<Rightarrow> world \<Rightarrow> world" where
  "update_forecast df f w =
     w\<lparr>forecast_frames := (forecast_frames w)(df := f (forecast_frames w df))\<rparr>"

definition transform_to_silver ::
    "(date_cell list \<Rightarrow> cell \<Rightarrow> reading) \<Rightarrow> (string \<Rightarrow> int option) \<Rightarrow>
     (cell list \<Rightarrow> int \<Rightarrow> 64 word option) \<Rightarrow>
     nat \<Rightarrow> nat \<Rightarrow> world \<Rightarrow> (error + nat \<times> nat) \<times> world" where
  "transform_to_silver parse int_of_str overflow df_sales df_forecast w =
     (let initial_count = int (length (sales_frames w df_sales)) in
      if sales_columnless w df_sales then (Inl KeyError, w)
      else
      case to_datetime parse (map sales_row.OrderDate (sales_frames w df_sales)) of
        Inl e \<Rightarrow> (Inl e, w)
      | Inr dates \<Rightarrow>
          let w1 = update_sales df_sales
                     (\<lambda>rows. map2 (\<lambda>r d. r\<lparr>sales_row.OrderDate := d\<rparr>) rows dates) w;
              w2 = update_sales df_sales
                     (map (\<lambda>r. r\<lparr>sales_row.Name :=
                                   fillna (StrV ''Unknown'') (sales_row.Name r)\<rparr>)) w1;
              w3 = update_sales df_sales
                     (map (\<lambda>r. r\<lparr>sales_row.Education :=
                                   fillna (StrV ''Not Provided'') (sales_row.Education r)\<rparr>)) w2;
              w4 = update_sales df_sales
                     (map (\<lambda>r. r\<lparr>sales_row.Occupation :=
                                   fillna (StrV ''Not Provided'') (sales_row.Occupation r)\<rparr>)) w3
          in if forecast_columnless w4 df_forecast then (Inl KeyError, w4)
             else
             case astype_int int_of_str overflow (map Year (forecast_frames w4 df_forecast)) of
               Inl e \<Rightarrow> (Inl e, w4)
             | Inr years \<Rightarrow>
                 let w5 = update_forecast df_forecast
                            (\<lambda>rows. map2 (\<lambda>r y. r\<lparr>Year := y\<rparr>) rows years) w4;
                     w6 = w5\<lparr>cleaned_sales_csv := Some (sales_frames w5 df_sales),
                             cleaned_forecast_csv := Some (forecast_frames w5 df_forecast)\<rparr>;
                     len = int (length (sales_frames w6 df_sales));
                     w7 = w6\<lparr>stdout := stdout w6 @
                            [CHR 0x0A # ''[SILVER VALIDATION]'',
                             ''-> Cleaned Sales: '' @ str_int len @ '' rows (Dropped: ''
                               @ str_int (initial_count - len) @ '')'']\<rparr>
                 in (Inr (df_sales, df_forecast), w7))"

text \<open>The four assignments of lines 40 to 43, seen on one row and its parsed date.\<close>

definition cleaned_sales_row :: "sales_row \<Rightarrow> date_cell \<Rightarrow> sales_row" where
  "cleaned_sales_row r d =
     r\<lparr>sales_row.OrderDate := d,
       sales_row.Name := fillna (StrV ''Unknown'') (sales_row.Name r),
       sales_row.Education := fillna (StrV ''Not Provided'') (sales_row.Education r),
       sales_row.Occupation := fillna (StrV ''Not Provided'') (sales_row.Occupation r)\<rparr>"

subsection \<open>Stage 1 and the whole run\<close>

text \<open>
  \<^verbatim>\<open>extract_from_raw\<close> builds two new frames from the two JSON files. Its arguments here
  are the records of the two files, with the cells as \<^verbatim>\<open>pd.DataFrame\<close> stores them; an
  empty array gives a frame without columns. Reading the configuration and creating the
  directories are left out.
\<close>

definition extract_from_raw ::
    "sales_row list \<Rightarrow> forecast_row list \<Rightarrow> world \<Rightarrow> (nat \<times> nat) \<times> world" where
  "extract_from_raw sales_records forecast_records w =
     (let df_sales = allocated w;
          df_forecast = allocated w + 1;
          w1 = w\<lparr>sales_frames := (sales_frames w)(df_sales := sales_records),
                  forecast_frames := (forecast_frames w)(df_forecast := forecast_records),
                  sales_columnless := (sales_columnless w)(df_sales := (sales_records = [])),
                  forecast_columnless :=
                    (forecast_columnless w)(df_forecast := (forecast_records = [])),
                  allocated := allocated w + 2\<rparr>;
          w2 = w1\<lparr>stdout := stdout w1 @
                 [CHR 0x0A # ''[BRONZE VALIDATION]'',
                  ''-> Raw Sales Loaded: '' @ str_nat (length sales_records) @ '' rows'',
                  ''-> Raw Forecast Loaded: '' @ str_nat (length forecast_records) @ '' rows'']\<rparr>
      in ((df_sales, df_forecast), w2))"

definition banner :: "string list" where
  "banner = [CHR 0x0A # replicate 30 (CHR ''=''), ''ETL SUCCESSFUL'', replicate 30 (CHR ''='')]"

text \<open>
  The run, stage by stage: line 91 and stage 1 (line 96), then stage 2 on the two frames
  that stage 1 returned (line 99), then stage 3 on the two frames that stage 2 returned
  and the banner (lines 102 to 106). The join of stage 3 is a parameter as in
  \<open>model_to_gold_with\<close>; \<open>run_etl\<close> is the run with the pandas \<open>merge\<close>.
\<close>

definition bronze_of_run ::
    "sales_row list \<Rightarrow> forecast_row list \<Rightarrow> world \<Rightarrow> (nat \<times> nat) \<times> world" where
  "bronze_of_run sales_records forecast_records w =
     extract_from_raw sales_records forecast_records
       (w\<lparr>stdout := stdout w @ [''Starting ETL Pipeline...'']\<rparr>)"

definition silver_of_run ::
    "(date_cell list \<Rightarrow> cell \<Rightarrow> reading) \<Rightarrow> (string \<Rightarrow> int option) \<Rightarrow>
     (cell list \<Rightarrow> int \<Rightarrow> 64 word option) \<Rightarrow>
     sales_row list \<Rightarrow> forecast_row list \<Rightarrow> world \<Rightarrow> (error + nat \<times> nat) \<times> world" where
  "silver_of_run parse int_of_str overflow sales_records forecast_records w =
     (case bronze_of_run sales_records forecast_records w of
        ((raw_sales, raw_forecast), w1) \<Rightarrow>
          transform_to_silver parse int_of_str overflow raw_sales raw_forecast w1)"

definition run_etl_with ::
    "join \<Rightarrow> (date_cell list \<Rightarrow> cell \<Rightarrow> reading) \<Rightarrow> (string \<Rightarrow> int option) \<Rightarrow>
     (cell list \<Rightarrow> int \<Rightarrow> 64 word option) \<Rightarrow>
     sales_row list \<Rightarrow> forecast_row list \<Rightarrow> world \<Rightarrow> (error + gold) \<times> world" where
  "run_etl_with merge_on_geography parse int_of_str overflow sales_records forecast_records w =
     (case silver_of_run parse int_of_str overflow sales_records forecast_records w of
        (Inl e, w2) \<Rightarrow> (Inl e, w2)
      | (Inr (silver_sales, silver_forecast), w2) \<Rightarrow>
          let g = model_to_gold_with merge_on_geography (sales_frames w2 silver_sales)
                    (forecast_frames w2 silver_forecast)
          in (Inr g, w2\<lparr>stdout := stdout w2 @ printed g @ banner\<rparr>))"

definition run_etl ::
    "(date_cell list \<Rightarrow> cell \<Rightarrow> reading) \<Rightarrow> (string \<Rightarrow> int option) \<Rightarrow>
     (cell list \<Rightarrow> int \<Rightarrow> 64 word option) \<Rightarrow>
     sales_row list \<Rightarrow> forecast_row list \<Rightarrow> world \<Rightarrow> (error + gold) \<times> world" where
  "run_etl = run_etl_with (merge geo_columns geo_of_dim)"

subsection \<open>Notions of the specification\<close>


text \<open>
  The fact table in the words of the specification: the pairs of a sales row and a
  \<^verbatim>\<open>dim_geo\<close> row that agree on each of the four geography columns, reduced to the six
  columns of the fact table.
\<close>

definition inner_join_on_geography :: "sales_row list \<Rightarrow> geo_row list \<Rightarrow> fact_row list" where
  "inner_join_on_geography sales geo_table =
     [\<lparr>fact_row.ProductKey = sales_row.ProductKey r,
       fact_row.CustomerKey = sales_row.CustomerKey r,
       fact_row.GeoKey = geo_row.GeoKey g,
       fact_row.OrderDate = sales_row.OrderDate r,
       fact_row.Quantity = sales_row.Quantity r,
       fact_row.Net_Price = sales_row.Net_Price r\<rparr>.
      r \<leftarrow> sales, g \<leftarrow> geo_table,
      sales_row.City r = geo_row.City g \<and> sales_row.State r = geo_row.State g
        \<and> sales_row.CountryRegion r = geo_row.CountryRegion g
        \<and> sales_row.Continent r = geo_row.Continent g]"

text \<open>A sales row none of whose four geography fields is missing.\<close>

definition geography_complete :: "sales_row \<Rightarrow> bool" where
  "geography_complete r \<longleftrightarrow>
     sales_row.City r \<noteq> Null \<and> sales_row.State r \<noteq> Null
       \<and> sales_row.CountryRegion r \<noteq> Null \<and> sales_row.Continent r \<noteq> Null"





text \<open>
  A join that pairs no sales row that has a missing geography field, as a join of SQL
  does, for a run of stage 3 that loses rows.
\<close>

definition null_dropping_join :: join where
  "null_dropping_join left right =
     merge geo_columns geo_of_dim (filter geography_complete left) right"

subsection \<open>A concrete run\<close>

text \<open>
  The sales record of the specification's first scenario, a forecast record, and parsers
  that know the one date and the one year that occur in them; the date parser reads the
  empty text as a missing date.
\<close>

definition scenario_row :: sales_row where
  "scenario_row =
     \<lparr>sales_row.OrderDate = Unparsed (StrV ''2023-01-01''),
      sales_row.Quantity = NumV 2,
      sales_row.Net_Price = NumV (999 / 100),
      sales_row.ProductKey = NumV 1,
      sales_row.Product_Name = StrV ''Widget'',
      sales_row.Brand = StrV ''B'',
      sales_row.Color = StrV ''Red'',
      sales_row.Subcategory = StrV ''Sub'',
      sales_row.Category = StrV ''Cat'',
      sales_row.CustomerKey = NumV 10,
      sales_row.Customer_Code = StrV ''C10'',
      sales_row.Name = Null,
      sales_row.Education = Null,
      sales_row.Occupation = StrV ''Eng'',
      sales_row.City = StrV ''A'',
      sales_row.State = StrV ''S1'',
      sales_row.CountryRegion = StrV ''US'',
      sales_row.Continent = StrV ''NA''\<rparr>"

definition scenario_forecast :: forecast_row where
  "scenario_forecast = \<lparr>Year = StrV ''2023'', other_columns = [(''ProductKey'', NumV 1)]\<rparr>"

definition scenario_parse :: "date_cell list \<Rightarrow> cell \<Rightarrow> reading" where
  "scenario_parse col c =
     (if c = StrV ''2023-01-01'' then Stamp 1672531200000000000
      else if c = StrV [] then NaT
      else Rejected)"

definition scenario_int_of_str :: "string \<Rightarrow> int option" where
  "scenario_int_of_str s = (if s = ''2023'' then Some 2023 else None)"

text \<open>A cast that raises on every integer outside the 64-bit range.\<close>

definition scenario_overflow :: "cell list \<Rightarrow> int \<Rightarrow> 64 word option" where
  "scenario_overflow col n = None"

definition empty_world :: world where
  "empty_world =
     \<lparr>sales_frames = (\<lambda>_. []), forecast_frames = (\<lambda>_. []),
      sales_columnless = (\<lambda>_. False), forecast_columnless = (\<lambda>_. False), allocated = 0,
      cleaned_sales_csv = None, cleaned_forecast_csv = None, stdout = []\<rparr>"

definition scenario_sales :: "sales_row list" where
  "scenario_sales =
     [scenario_row, scenario_row\<lparr>sales_row.City := StrV ''B''\<rparr>, scenario_row]"

text \<open>The same table with a row whose city is missing.\<close>

definition scenario_sales_null_city :: "sales_row list" where
  "scenario_sales_null_city =
     [scenario_row, scenario_row\<lparr>sales_row.City := Null\<rparr>, scenario_row]"

text \<open>
  A forecast table whose second year is the number 2023.5, the store after the extractor
  has loaded the scenario's tables into an empty store (the sales frame is object 0, the
  forecast frame object 1), and the same with a sales date that the parser rejects.
\<close>

definition scenario_forecasts :: "forecast_row list" where
  "scenario_forecasts =
     [scenario_forecast, \<lparr>Year = NumV (4047 / 2), other_columns = [(''ProductKey'', NumV 2)]\<rparr>]"

definition scenario_world :: world where
  "scenario_world = snd (extract_from_raw [scenario_row] scenario_forecasts empty_world)"

definition bad_date_world :: world where
  "bad_date_world =
     snd (extract_from_raw
            [scenario_row\<lparr>sales_row.OrderDate := Unparsed (StrV ''soon'')\<rparr>]
            scenario_forecasts empty_world)"

text \<open>The store after loading a forecast table with a missing year.\<close>

definition bad_year_world :: world where
  "bad_year_world =
     snd (extract_from_raw [scenario_row]
            [scenario_forecast, \<lparr>Year = Null, other_columns = []\<rparr>] empty_world)"

text \<open>
  The store after loading a sales table whose second order date is missing and whose
  third is the empty text.
\<close>

definition mixed_dates_world :: world where
  "mixed_dates_world =
     snd (extract_from_raw
            [scenario_row,
             scenario_row\<lparr>sales_row.OrderDate := Unparsed Null, sales_row.City := Null\<rparr>,
             scenario_row\<lparr>sales_row.OrderDate := Unparsed (StrV [])\<rparr>]
            scenario_forecasts empty_world)"

text \<open>The store after loading a forecast table whose second year is the number 10^20.\<close>

definition big_year_world :: world where
  "big_year_world =
     snd (extract_from_raw [scenario_row]
            [scenario_forecast, \<lparr>Year = NumV (10 ^ 20), other_columns = []\<rparr>] empty_world)"

section \<open>Properties\<close>

subsection \<open>Deduplication\<close>

lemma length_unmarked: "length (unmarked xs marks) \<le> length xs"
proof -
  have "length (unmarked xs marks) \<le> length (zip xs marks)"
    unfolding unmarked_def length_map by (rule length_filter_le)
  then show ?thesis by simp
qed

lemma length_drop_duplicates: "length (drop_duplicates xs) \<le> length xs"
  unfolding drop_duplicates_def by (rule length_unmarked)

text \<open>
  Claim C7: each of the three dimension tables has at most as many rows as the cleaned
  sales table it is derived from.
\<close>

theorem dimensions_no_larger_than_sales:
  "length (dim_product (model_to_gold df_sales df_forecast)) \<le> length df_sales
   \<and> length (dim_customer (model_to_gold df_sales df_forecast)) \<le> length df_sales
   \<and> length (dim_geo (model_to_gold df_sales df_forecast)) \<le> length df_sales"
proof -
  have p: "length (drop_duplicates (map product_columns df_sales)) \<le> length df_sales"
    using length_drop_duplicates [of "map product_columns df_sales"] by simp
  have c: "length (drop_duplicates (map customer_columns df_sales)) \<le> length df_sales"
    using length_drop_duplicates [of "map customer_columns df_sales"] by simp
  have g: "length (drop_duplicates (map geo_columns df_sales)) \<le> length df_sales"
    using length_drop_duplicates [of "map geo_columns df_sales"] by simp
  have g': "length (assign_GeoKey (drop_duplicates (map geo_columns df_sales)))
              \<le> length df_sales"
    using g by (simp add: assign_GeoKey_def range1_def)
  show ?thesis
    using p c g' by (simp add: model_to_gold_def model_to_gold_with_def Let_def)
qed

lemma unmarked_Nil [simp]: "unmarked [] ms = []"
  by (simp add: unmarked_def)

lemma unmarked_Cons [simp]:
  "unmarked (x # xs) (m # ms) = (if m then unmarked xs ms else x # unmarked xs ms)"
  by (simp add: unmarked_def)

lemma set_unmarked_from:
  "set (unmarked xs (duplicated_from seen xs)) = set xs - set seen"
  by (induction xs arbitrary: seen) auto

lemma distinct_unmarked_from:
  "distinct (unmarked xs (duplicated_from seen xs))"
  by (induction xs arbitrary: seen) (auto simp: set_unmarked_from)

lemma set_drop_duplicates: "set (drop_duplicates xs) = set xs"
  by (simp add: drop_duplicates_def duplicated_def set_unmarked_from)

lemma distinct_drop_duplicates: "distinct (drop_duplicates xs)"
  by (simp add: drop_duplicates_def duplicated_def distinct_unmarked_from)




lemma length_filter_key:
  "distinct (map f ys) \<Longrightarrow> k \<in> f ` set ys \<Longrightarrow> length (filter (\<lambda>y. f y = k) ys) = Suc 0"
proof (induction ys)
  case Nil
  then show ?case by simp
next
  case (Cons y ys)
  show ?case
  proof (cases "f y = k")
    case True
    with Cons.prems have "\<forall>z\<in>set ys. f z \<noteq> k" by (force simp: image_iff)
    then have "filter (\<lambda>y. f y = k) ys = []" by (simp add: filter_empty_conv)
    with True show ?thesis by simp
  next
    case False
    with Cons show ?thesis by auto
  qed
qed

lemma length_merge:
  "length (merge lkey rkey left right) =
     sum_list (map (\<lambda>l. length (filter (\<lambda>r. rkey r = lkey l) right)) left)"
  by (simp add: merge_def length_concat comp_def)

lemma sum_list_ones:
  "\<forall>x\<in>set xs. g x = Suc 0 \<Longrightarrow> sum_list (map g xs) = length xs"
  by (induction xs) auto

lemma length_merge_total:
  assumes "distinct (map rkey right)" and "lkey ` set left \<subseteq> rkey ` set right"
  shows "length (merge lkey rkey left right) = length left"
proof -
  have "\<forall>l\<in>set left. length (filter (\<lambda>r. rkey r = lkey l) right) = Suc 0"
    using assms by (auto intro!: length_filter_key)
  then show ?thesis
    unfolding length_merge by (rule sum_list_ones)
qed


lemma length_range1 [simp]: "length (range1 n) = n"
  by (simp add: range1_def)

lemma geo_of_dim_with_GeoKey [simp]: "geo_of_dim (with_GeoKey t k) = t"
  by (cases t) (simp add: geo_of_dim_def with_GeoKey_def)

lemma GeoKey_with_GeoKey [simp]: "geo_row.GeoKey (with_GeoKey t k) = k"
  by (cases t) (simp add: with_GeoKey_def)

lemma geo_of_assign_GeoKey: "map geo_of_dim (assign_GeoKey ts) = ts"
proof -
  have "map geo_of_dim (assign_GeoKey ts) = map fst (zip ts (range1 (length ts)))"
    by (simp add: assign_GeoKey_def split_def comp_def)
  then show ?thesis by simp
qed


lemma length_assign_GeoKey [simp]: "length (assign_GeoKey ts) = length ts"
  by (simp add: assign_GeoKey_def)

subsection \<open>The star schema\<close>

lemmas gold_defs =
  model_to_gold_def model_to_gold_with_def Let_def drop_duplicates_def duplicated_def product_columns_def
  customer_columns_def geo_columns_def geo_of_dim_def assign_GeoKey_def with_GeoKey_def
  range1_def upt_rec merge_def fact_columns_def

lemmas scenario_defs =
  scenario_row_def scenario_sales_def scenario_sales_null_city_def scenario_forecast_def

lemma dim_geo_eq:
  "dim_geo (model_to_gold s f) = assign_GeoKey (drop_duplicates (map geo_columns s))"
  by (simp add: model_to_gold_def model_to_gold_with_def Let_def)

lemma fact_sales_eq:
  "fact_sales (model_to_gold s f) =
     map fact_columns (merge geo_columns geo_of_dim s (dim_geo (model_to_gold s f)))"
  by (simp add: model_to_gold_def model_to_gold_with_def Let_def)

lemma geo_of_dim_geo:
  "map geo_of_dim (dim_geo (model_to_gold s f)) = drop_duplicates (map geo_columns s)"
  by (simp add: dim_geo_eq geo_of_assign_GeoKey)

lemma length_fact_sales: "length (fact_sales (model_to_gold s f)) = length s"
proof -
  let ?dg = "dim_geo (model_to_gold s f)"
  have d: "distinct (map geo_of_dim ?dg)"
    by (simp add: geo_of_dim_geo distinct_drop_duplicates)
  have "set (map geo_of_dim ?dg) = set (map geo_columns s)"
    by (simp only: geo_of_dim_geo set_drop_duplicates)
  then have "geo_columns ` set s \<subseteq> geo_of_dim ` set ?dg" by simp
  with d have "length (merge geo_columns geo_of_dim s ?dg) = length s"
    by (rule length_merge_total)
  then show ?thesis by (simp add: fact_sales_eq)
qed

text \<open>
  Claim C1: when the geography tuple of every row of the cleaned sales table occurs in
  \<^verbatim>\<open>dim_geo\<close>, and in particular when no row has a missing geography field, the fact
  table has exactly as many rows as the cleaned sales table.
\<close>

theorem fact_rows_match_sales_rows:
  "((\<forall>r\<in>set df_sales.
        geo_columns r \<in> set (map geo_of_dim (dim_geo (model_to_gold df_sales df_forecast))))
      \<longrightarrow> length (fact_sales (model_to_gold df_sales df_forecast)) = length df_sales)
   \<and> ((\<forall>r\<in>set df_sales. geography_complete r)
      \<longrightarrow> length (fact_sales (model_to_gold df_sales df_forecast)) = length df_sales)"
  by (simp add: length_fact_sales)

theorem fact_rows_match_sales_rows_witness:
  "list_all
     (\<lambda>r. geo_columns r \<in> set (map geo_of_dim (dim_geo (model_to_gold scenario_sales []))))
     scenario_sales
   \<and> list_all geography_complete scenario_sales
   \<and> length (fact_sales (model_to_gold scenario_sales [])) = 3"
proof -
  have a: "\<forall>r\<in>set scenario_sales.
       geo_columns r \<in> set (map geo_of_dim (dim_geo (model_to_gold scenario_sales [])))"
    by (simp add: gold_defs scenario_defs)
  have b: "\<forall>r\<in>set scenario_sales. geography_complete r"
    by (simp add: geography_complete_def scenario_defs)
  have "length (fact_sales (model_to_gold scenario_sales [])) = length scenario_sales"
    using fact_rows_match_sales_rows [of scenario_sales "[]"] a by blast
  then have c: "length (fact_sales (model_to_gold scenario_sales [])) = 3"
    by (simp add: scenario_sales_def)
  show ?thesis using a b c by (simp add: list_all_iff)
qed


lemma join_one_row:
  "map fact_columns (map (Pair r) (filter (\<lambda>g. geo_of_dim g = geo_columns r) gs)) =
     inner_join_on_geography [r] gs"
  by (induction gs)
     (auto simp: inner_join_on_geography_def fact_columns_def geo_of_dim_def geo_columns_def)

lemma inner_join_Cons:
  "inner_join_on_geography (r # rs) gs =
     inner_join_on_geography [r] gs @ inner_join_on_geography rs gs"
  by (simp add: inner_join_on_geography_def)

lemma merge_is_inner_join:
  "map fact_columns (merge geo_columns geo_of_dim rs gs) = inner_join_on_geography rs gs"
proof (induction rs)
  case Nil
  show ?case by (simp add: merge_def inner_join_on_geography_def)
next
  case (Cons r rs)
  have 1: "map fact_columns (merge geo_columns geo_of_dim (r # rs) gs) =
          map fact_columns (map (Pair r) (filter (\<lambda>g. geo_of_dim g = geo_columns r) gs))
            @ map fact_columns (merge geo_columns geo_of_dim rs gs)"
    by (simp add: merge_def)
  have 2: "map fact_columns (map (Pair r) (filter (\<lambda>g. geo_of_dim g = geo_columns r) gs)) =
          inner_join_on_geography [r] gs"
    by (rule join_one_row)
  have 3: "inner_join_on_geography (r # rs) gs =
          inner_join_on_geography [r] gs @ inner_join_on_geography rs gs"
    by (rule inner_join_Cons)
  show ?case
    by (simp only: 1 2 3 Cons.IH)
qed


text \<open>
  Claim C2: the fact table is the equality inner join of the cleaned sales rows with
  \<^verbatim>\<open>dim_geo\<close> on the four geography columns together, reduced to the columns
  \<^verbatim>\<open>ProductKey\<close>, \<^verbatim>\<open>CustomerKey\<close>, \<^verbatim>\<open>GeoKey\<close>, \<^verbatim>\<open>OrderDate\<close>, \<^verbatim>\<open>Quantity\<close> and \<^verbatim>\<open>Net Price\<close>.
\<close>

theorem fact_sales_is_inner_join_on_geography:
  "fact_sales (model_to_gold df_sales df_forecast) =
     inner_join_on_geography df_sales (dim_geo (model_to_gold df_sales df_forecast))"
  by (simp only: fact_sales_eq merge_is_inner_join)

text \<open>
  Claim C10, as stated: the fact table has as many rows as there are sales rows with four
  non-missing geography fields. It fails on a table with a missing city: the merge matches
  the missing key with the missing key of \<^verbatim>\<open>dim_geo\<close> and keeps the row.
\<close>

theorem null_geography_row_is_kept:
  "length (fact_sales (model_to_gold scenario_sales_null_city [])) = 3
   \<and> length (filter geography_complete scenario_sales_null_city) = 2"
  by (simp add: gold_defs scenario_defs geography_complete_def)

text \<open>
  Claim C10, amended: the fact table has exactly as many rows as the cleaned sales table,
  whatever is missing in the geography fields, since \<^verbatim>\<open>dim_geo\<close> holds every geography
  tuple of the sales table and none twice. So it never has more rows than the sales
  table, and the rows with four non-missing geography fields are a lower bound only.
\<close>

theorem fact_rows_equal_sales_rows_with_nulls:
  "length (fact_sales (model_to_gold df_sales df_forecast)) = length df_sales
   \<and> length (fact_sales (model_to_gold df_sales df_forecast)) \<le> length df_sales
   \<and> distinct (map geo_of_dim (dim_geo (model_to_gold df_sales df_forecast)))
   \<and> set (map geo_columns df_sales)
       = set (map geo_of_dim (dim_geo (model_to_gold df_sales df_forecast)))
   \<and> length (filter geography_complete df_sales)
       \<le> length (fact_sales (model_to_gold df_sales df_forecast))"
proof -
  have "distinct (map geo_of_dim (dim_geo (model_to_gold df_sales df_forecast)))"
    by (simp add: geo_of_dim_geo distinct_drop_duplicates)
  moreover have "set (map geo_columns df_sales)
       = set (map geo_of_dim (dim_geo (model_to_gold df_sales df_forecast)))"
    by (simp only: geo_of_dim_geo set_drop_duplicates)
  ultimately show ?thesis
    by (simp add: length_fact_sales)
qed

subsection \<open>The cleaner\<close>

lemma those_Some_iff: "those xs = Some ys \<longleftrightarrow> xs = map Some ys"
  by (induction xs arbitrary: ys) (auto split: option.splits)


lemma to_datetime_Inr:
  "to_datetime parse col = Inr dates \<longleftrightarrow> map (to_datetime_cell parse col) col = map Some dates"
  using those_Some_iff [of "map (to_datetime_cell parse col) col" dates]
  by (cases "those (map (to_datetime_cell parse col) col)") (auto simp: to_datetime_def)



lemma astype_int_Inr:
  "astype_int int_of_str overflow col = Inr ints \<longleftrightarrow>
     map (astype_int_cell int_of_str overflow col) col = map Some ints"
  using those_Some_iff [of "map (astype_int_cell int_of_str overflow col) col" ints]
  by (cases "those (map (astype_int_cell int_of_str overflow col) col)")
     (auto simp: astype_int_def)




lemma map_map2: "map g (map2 f xs ys) = map2 (\<lambda>x y. g (f x y)) xs ys"
  by (simp add: split_def)

lemma world_after_cleaning:
  assumes "transform_to_silver parse int_of_str overflow df_sales df_forecast w = (Inr out, w')"
  shows "\<exists>dates years.
           to_datetime parse (map sales_row.OrderDate (sales_frames w df_sales)) = Inr dates
         \<and> astype_int int_of_str overflow (map Year (forecast_frames w df_forecast)) = Inr years
         \<and> \<not> sales_columnless w df_sales \<and> \<not> forecast_columnless w df_forecast
         \<and> out = (df_sales, df_forecast)
         \<and> sales_frames w' =
             (sales_frames w)(df_sales := map2 cleaned_sales_row (sales_frames w df_sales) dates)
         \<and> forecast_frames w' =
             (forecast_frames w)(df_forecast :=
                map2 (\<lambda>r y. r\<lparr>Year := y\<rparr>) (forecast_frames w df_forecast) years)
         \<and> sales_columnless w' = sales_columnless w
         \<and> forecast_columnless w' = forecast_columnless w
         \<and> cleaned_sales_csv w' = Some (sales_frames w' df_sales)
         \<and> cleaned_forecast_csv w' = Some (forecast_frames w' df_forecast)
         \<and> allocated w' = allocated w"
  using assms
  unfolding transform_to_silver_def Let_def update_sales_def update_forecast_def
  by (auto split: sum.splits if_splits simp: map_map2 cleaned_sales_row_def fun_eq_iff split_def)

lemma to_datetime_cell_fixed:
  "to_datetime_cell parse col d = Some d' \<Longrightarrow> to_datetime_cell parse col' d' = Some d'"
  by (auto simp: to_datetime_cell_def split: date_cell.splits if_splits reading.splits)

lemma trunc_of_int [simp]: "trunc (of_int n) = n"
  by (simp add: trunc_def)

lemma in_int64_sint [simp]: "in_int64 (sint (w :: 64 word))"
  using sint_ge [of w] sint_lt [of w] by (simp add: in_int64_def)

lemma store_int64_in_range:
  "store_int64 overflow col n = Some c \<Longrightarrow> \<exists>k. c = NumV (of_int k) \<and> in_int64 k"
proof (cases "in_int64 n")
  case True
  then show "store_int64 overflow col n = Some c \<Longrightarrow> ?thesis"
    by (auto simp: store_int64_def)
next
  case False
  assume "store_int64 overflow col n = Some c"
  with False have "map_option (\<lambda>w. NumV (of_int (sint w))) (overflow col n) = Some c"
    by (simp add: store_int64_def del: of_int_sint)
  then obtain w :: "64 word" where "NumV (of_int (sint w)) = c"
    unfolding map_option_eq_Some by blast
  then show ?thesis using in_int64_sint [of w] by blast
qed

lemma astype_int_cell_in_range:
  "astype_int_cell int_of_str overflow col c = Some c' \<Longrightarrow>
     \<exists>k. c' = NumV (of_int k) \<and> in_int64 k"
  by (auto simp: astype_int_cell_def split: cell.splits option.splits
           dest: store_int64_in_range)

lemma astype_int_cell_fixed:
  "astype_int_cell int_of_str overflow col c = Some c' \<Longrightarrow>
     astype_int_cell int_of_str' overflow' col' c' = Some c'"
proof -
  assume "astype_int_cell int_of_str overflow col c = Some c'"
  then obtain k where "c' = NumV (of_int k)" and "in_int64 k"
    using astype_int_cell_in_range by blast
  then show ?thesis
    by (simp add: astype_int_cell_def store_int64_def)
qed

lemma to_datetime_fixed:
  assumes "to_datetime parse col = Inr dates"
  shows "to_datetime parse dates = Inr dates"
proof -
  from assms have m: "map (to_datetime_cell parse col) col = map Some dates"
    by (simp add: to_datetime_Inr)
  have "\<forall>d'\<in>set dates. to_datetime_cell parse dates d' = Some d'"
  proof
    fix d' assume "d' \<in> set dates"
    then have "Some d' \<in> set (map (to_datetime_cell parse col) col)"
      by (simp add: m)
    then obtain d where "to_datetime_cell parse col d = Some d'" by auto
    then show "to_datetime_cell parse dates d' = Some d'"
      by (rule to_datetime_cell_fixed)
  qed
  then have "map (to_datetime_cell parse dates) dates = map Some dates" by simp
  then show ?thesis by (simp add: to_datetime_Inr)
qed

lemma astype_int_fixed:
  assumes "astype_int int_of_str overflow col = Inr ints"
  shows "astype_int int_of_str overflow ints = Inr ints"
proof -
  from assms have m: "map (astype_int_cell int_of_str overflow col) col = map Some ints"
    by (simp add: astype_int_Inr)
  have "\<forall>c'\<in>set ints. astype_int_cell int_of_str overflow ints c' = Some c'"
  proof
    fix c' assume "c' \<in> set ints"
    then have "Some c' \<in> set (map (astype_int_cell int_of_str overflow col) col)"
      by (simp add: m)
    then obtain c where "astype_int_cell int_of_str overflow col c = Some c'" by auto
    then show "astype_int_cell int_of_str overflow ints c' = Some c'"
      by (rule astype_int_cell_fixed)
  qed
  then have "map (astype_int_cell int_of_str overflow ints) ints = map Some ints" by simp
  then show ?thesis by (simp add: astype_int_Inr)
qed

lemma fillna_fillna [simp]: "v \<noteq> Null \<Longrightarrow> fillna v (fillna v c) = fillna v c"
  by (simp add: fillna_def)

lemma cleaned_sales_row_again:
  "cleaned_sales_row (cleaned_sales_row r d) d = cleaned_sales_row r d"
  by (simp add: cleaned_sales_row_def)

lemma OrderDate_cleaned [simp]: "sales_row.OrderDate (cleaned_sales_row r d) = d"
  by (simp add: cleaned_sales_row_def)

lemma map2_idem:
  "length xs = length ys \<Longrightarrow> (\<And>x y. f (f x y) y = f x y) \<Longrightarrow>
     map2 f (map2 f xs ys) ys = map2 f xs ys"
  by (induction xs ys rule: list_induct2) auto

lemma world_when_cleaning_succeeds:
  assumes d: "to_datetime parse (map sales_row.OrderDate (sales_frames w df_sales)) = Inr dates"
    and y: "astype_int int_of_str overflow (map Year (forecast_frames w df_forecast)) = Inr years"
    and c: "\<not> sales_columnless w df_sales" "\<not> forecast_columnless w df_forecast"
  shows "fst (transform_to_silver parse int_of_str overflow df_sales df_forecast w)
           = Inr (df_sales, df_forecast)
       \<and> sales_frames (snd (transform_to_silver parse int_of_str overflow df_sales df_forecast w)) =
             (sales_frames w)(df_sales := map2 cleaned_sales_row (sales_frames w df_sales) dates)
       \<and> forecast_frames (snd (transform_to_silver parse int_of_str overflow df_sales df_forecast w)) =
             (forecast_frames w)(df_forecast :=
                map2 (\<lambda>r y. r\<lparr>Year := y\<rparr>) (forecast_frames w df_forecast) years)
       \<and> cleaned_sales_csv (snd (transform_to_silver parse int_of_str overflow df_sales df_forecast w)) =
             Some (map2 cleaned_sales_row (sales_frames w df_sales) dates)
       \<and> cleaned_forecast_csv (snd (transform_to_silver parse int_of_str overflow df_sales df_forecast w)) =
             Some (map2 (\<lambda>r y. r\<lparr>Year := y\<rparr>) (forecast_frames w df_forecast) years)"
  using d y c
  unfolding transform_to_silver_def Let_def update_sales_def update_forecast_def
  by (simp add: map_map2 cleaned_sales_row_def fun_eq_iff split_def)

lemma floor_rat_numeral [simp]:
  "\<lfloor>numeral a / numeral b :: rat\<rfloor> = numeral a div numeral b"
  by (metis floor_divide_of_int_eq of_int_numeral)

lemmas cleaner_defs =
  transform_to_silver_def extract_from_raw_def update_sales_def update_forecast_def
  to_datetime_def to_datetime_cell_def astype_int_def astype_int_cell_def store_int64_def
  in_int64_def trunc_def
  fillna_def Let_def empty_world_def scenario_world_def bad_date_world_def
  scenario_parse_def scenario_int_of_str_def scenario_overflow_def scenario_forecasts_def
  bad_year_world_def mixed_dates_world_def big_year_world_def

lemma scenario_cleaning:
  "transform_to_silver scenario_parse scenario_int_of_str scenario_overflow 0 1 scenario_world =
     (Inr (0, 1),
      scenario_world
        \<lparr>sales_frames := (sales_frames scenario_world)
           (0 := [scenario_row\<lparr>sales_row.OrderDate := Parsed 1672531200000000000,
                    sales_row.Name := StrV ''Unknown'',
                    sales_row.Education := StrV ''Not Provided''\<rparr>]),
         forecast_frames := (forecast_frames scenario_world)
           (1 := [scenario_forecast\<lparr>Year := NumV 2023\<rparr>,
                  \<lparr>Year = NumV 2023, other_columns = [(''ProductKey'', NumV 2)]\<rparr>]),
         cleaned_sales_csv :=
           Some [scenario_row\<lparr>sales_row.OrderDate := Parsed 1672531200000000000,
                    sales_row.Name := StrV ''Unknown'',
                    sales_row.Education := StrV ''Not Provided''\<rparr>],
         cleaned_forecast_csv :=
           Some [scenario_forecast\<lparr>Year := NumV 2023\<rparr>,
                  \<lparr>Year = NumV 2023, other_columns = [(''ProductKey'', NumV 2)]\<rparr>],
         stdout := stdout scenario_world @
           [CHR 0x0A # ''[SILVER VALIDATION]'', ''-> Cleaned Sales: 1 rows (Dropped: 0)'']\<rparr>)"
  by (simp add: cleaner_defs scenario_defs str_int_def str_nat.simps)

lemma scenario_cleaning_pair:
  "transform_to_silver scenario_parse scenario_int_of_str scenario_overflow 0 1 scenario_world =
     (Inr (0, 1),
      snd (transform_to_silver scenario_parse scenario_int_of_str scenario_overflow 0 1
             scenario_world))"
  by (simp only: scenario_cleaning prod.sel)

lemma list_all2_map2_left:
  "length xs = length ys \<Longrightarrow> (\<And>x y. (x, y) \<in> set (zip xs ys) \<Longrightarrow> P x (f x y)) \<Longrightarrow>
     list_all2 P xs (map2 f xs ys)"
  by (induction xs ys rule: list_induct2) auto

lemma zip_map_Some:
  "map f xs = map Some ys \<Longrightarrow> (x, y) \<in> set (zip xs ys) \<Longrightarrow> f x = Some y"
proof (induction xs arbitrary: ys)
  case Nil
  then show ?case by simp
next
  case (Cons a xs)
  then show ?case by (cases ys) auto
qed

lemma map_of_map2_snd:
  "length xs = length ys \<Longrightarrow> (\<And>x y. g (f x y) = y) \<Longrightarrow> map g (map2 f xs ys) = ys"
  by (induction xs ys rule: list_induct2) auto

text \<open>What a successful run of the cleaner leaves, row by row.\<close>

lemma rows_after_cleaning:
  assumes "transform_to_silver parse int_of_str overflow df_sales df_forecast w = (Inr out, w')"
  shows "list_all2
           (\<lambda>r r'. r' = cleaned_sales_row r (sales_row.OrderDate r')
                  \<and> to_datetime_cell parse (map sales_row.OrderDate (sales_frames w df_sales))
                        (sales_row.OrderDate r) = Some (sales_row.OrderDate r'))
           (sales_frames w df_sales) (sales_frames w' df_sales)
       \<and> list_all2
           (\<lambda>r r'. r' = r\<lparr>Year := Year r'\<rparr>
                  \<and> astype_int_cell int_of_str overflow (map Year (forecast_frames w df_forecast))
                        (Year r) = Some (Year r'))
           (forecast_frames w df_forecast) (forecast_frames w' df_forecast)"
proof -
  let ?S = "sales_frames w df_sales" and ?F = "forecast_frames w df_forecast"
  from world_after_cleaning [OF assms] obtain dates years where
    d: "to_datetime parse (map sales_row.OrderDate ?S) = Inr dates" and
    y: "astype_int int_of_str overflow (map Year ?F) = Inr years" and
    s': "sales_frames w' df_sales = map2 cleaned_sales_row ?S dates" and
    f': "forecast_frames w' df_forecast = map2 (\<lambda>r y. r\<lparr>Year := y\<rparr>) ?F years"
    by auto
  let ?col = "map sales_row.OrderDate ?S" and ?ycol = "map Year ?F"
  from d have md: "map (to_datetime_cell parse ?col \<circ> sales_row.OrderDate) ?S = map Some dates"
    by (simp add: to_datetime_Inr)
  then have ld: "length ?S = length dates" by (metis length_map)
  from y have my: "map (astype_int_cell int_of_str overflow ?ycol \<circ> Year) ?F = map Some years"
    by (simp add: astype_int_Inr)
  then have ly: "length ?F = length years" by (metis length_map)
  have sales: "list_all2
           (\<lambda>r r'. r' = cleaned_sales_row r (sales_row.OrderDate r')
                  \<and> to_datetime_cell parse ?col (sales_row.OrderDate r)
                        = Some (sales_row.OrderDate r'))
           ?S (map2 cleaned_sales_row ?S dates)"
  proof (rule list_all2_map2_left [OF ld])
    fix r d assume "(r, d) \<in> set (zip ?S dates)"
    with md have "(to_datetime_cell parse ?col \<circ> sales_row.OrderDate) r = Some d"
      by (rule zip_map_Some)
    then show "cleaned_sales_row r d
                 = cleaned_sales_row r (sales_row.OrderDate (cleaned_sales_row r d))
               \<and> to_datetime_cell parse ?col (sales_row.OrderDate r)
                   = Some (sales_row.OrderDate (cleaned_sales_row r d))"
      by simp
  qed
  have forecast: "list_all2
           (\<lambda>r r'. r' = r\<lparr>Year := Year r'\<rparr>
                  \<and> astype_int_cell int_of_str overflow ?ycol (Year r) = Some (Year r'))
           ?F (map2 (\<lambda>r y. r\<lparr>Year := y\<rparr>) ?F years)"
  proof (rule list_all2_map2_left [OF ly])
    fix r y assume "(r, y) \<in> set (zip ?F years)"
    with my have "(astype_int_cell int_of_str overflow ?ycol \<circ> Year) r = Some y"
      by (rule zip_map_Some)
    then show "r\<lparr>Year := y\<rparr> = r\<lparr>Year := Year (r\<lparr>Year := y\<rparr>)\<rparr>
                \<and> astype_int_cell int_of_str overflow ?ycol (Year r)
                    = Some (Year (r\<lparr>Year := y\<rparr>))"
      by simp
  qed
  show ?thesis using sales forecast by (simp only: s' f')
qed

lemma to_datetime_cell_Null:
  "to_datetime_cell parse col (Unparsed Null) = Some d \<Longrightarrow> d = Unparsed Null"
  by (simp add: to_datetime_cell_def)

text \<open>
  Claim C5: when the cleaner succeeds, every cleaned sales row is the raw row with a
  missing \<^verbatim>\<open>Name\<close> replaced by \<^verbatim>\<open>Unknown\<close>, a missing \<^verbatim>\<open>Education\<close> and a missing
  \<^verbatim>\<open>Occupation\<close> by \<^verbatim>\<open>Not Provided\<close>, and with its parsed \<^verbatim>\<open>OrderDate\<close>; every cleaned
  forecast row is the raw row with its cast \<^verbatim>\<open>Year\<close>. These two fields are the ones that
  the cleaner's other two rules convert, and a missing order date is still missing. All
  other fields, missing values included, are as they were, and no row is added, dropped
  or moved.
\<close>

theorem cleaner_fills_three_fields_and_keeps_the_rest:
  assumes "transform_to_silver parse int_of_str overflow df_sales df_forecast w = (Inr out, w')"
  shows "list_all2
           (\<lambda>r r'. r' = r\<lparr>sales_row.OrderDate := sales_row.OrderDate r',
                          sales_row.Name :=
                            (if sales_row.Name r = Null then StrV ''Unknown''
                             else sales_row.Name r),
                          sales_row.Education :=
                            (if sales_row.Education r = Null then StrV ''Not Provided''
                             else sales_row.Education r),
                          sales_row.Occupation :=
                            (if sales_row.Occupation r = Null then StrV ''Not Provided''
                             else sales_row.Occupation r)\<rparr>
                  \<and> (sales_row.OrderDate r = Unparsed Null
                       \<longrightarrow> sales_row.OrderDate r' = Unparsed Null))
           (sales_frames w df_sales) (sales_frames w' df_sales)
       \<and> list_all2 (\<lambda>r r'. r' = r\<lparr>Year := Year r'\<rparr>)
           (forecast_frames w df_forecast) (forecast_frames w' df_forecast)"
proof -
  note rows = rows_after_cleaning [OF assms]
  have sales: "list_all2
           (\<lambda>r r'. r' = r\<lparr>sales_row.OrderDate := sales_row.OrderDate r',
                          sales_row.Name :=
                            (if sales_row.Name r = Null then StrV ''Unknown''
                             else sales_row.Name r),
                          sales_row.Education :=
                            (if sales_row.Education r = Null then StrV ''Not Provided''
                             else sales_row.Education r),
                          sales_row.Occupation :=
                            (if sales_row.Occupation r = Null then StrV ''Not Provided''
                             else sales_row.Occupation r)\<rparr>
                  \<and> (sales_row.OrderDate r = Unparsed Null
                       \<longrightarrow> sales_row.OrderDate r' = Unparsed Null))
           (sales_frames w df_sales) (sales_frames w' df_sales)"
    using conjunct1 [OF rows]
    by (rule list_all2_mono)
       (auto simp: cleaned_sales_row_def fillna_def dest: to_datetime_cell_Null)
  have forecast: "list_all2 (\<lambda>r r'. r' = r\<lparr>Year := Year r'\<rparr>)
           (forecast_frames w df_forecast) (forecast_frames w' df_forecast)"
    using conjunct2 [OF rows] by (rule list_all2_mono) simp
  show ?thesis using sales forecast by (rule conjI)
qed

lemma mixed_dates_cleaning:
  "fst (transform_to_silver scenario_parse scenario_int_of_str scenario_overflow 0 1
          mixed_dates_world) = Inr (0, 1)
   \<and> sales_frames (snd (transform_to_silver scenario_parse scenario_int_of_str
          scenario_overflow 0 1 mixed_dates_world)) 0
       = [scenario_row\<lparr>sales_row.OrderDate := Parsed 1672531200000000000,
            sales_row.Name := StrV ''Unknown'', sales_row.Education := StrV ''Not Provided''\<rparr>,
          scenario_row\<lparr>sales_row.OrderDate := Unparsed Null,
            sales_row.Name := StrV ''Unknown'', sales_row.Education := StrV ''Not Provided'',
            sales_row.City := Null\<rparr>,
          scenario_row\<lparr>sales_row.OrderDate := Unparsed Null,
            sales_row.Name := StrV ''Unknown'', sales_row.Education := StrV ''Not Provided''\<rparr>]"
  by (simp add: cleaner_defs scenario_defs)

text \<open>
  Claim C5 on a sales table with a parsed date, a missing date next to a missing city,
  and an empty date text.
\<close>

theorem cleaner_fills_three_fields_and_keeps_the_rest_witness:
  "fst (transform_to_silver scenario_parse scenario_int_of_str scenario_overflow 0 1
          mixed_dates_world) = Inr (0, 1)
   \<and> map sales_row.Name (sales_frames (snd (transform_to_silver scenario_parse
          scenario_int_of_str scenario_overflow 0 1 mixed_dates_world)) 0)
       = [StrV ''Unknown'', StrV ''Unknown'', StrV ''Unknown'']
   \<and> map sales_row.City (sales_frames (snd (transform_to_silver scenario_parse
          scenario_int_of_str scenario_overflow 0 1 mixed_dates_world)) 0)
       = [StrV ''A'', Null, StrV ''A'']
   \<and> list_all2
        (\<lambda>r r'. r' = r\<lparr>sales_row.OrderDate := sales_row.OrderDate r',
                       sales_row.Name :=
                         (if sales_row.Name r = Null then StrV ''Unknown''
                          else sales_row.Name r),
                       sales_row.Education :=
                         (if sales_row.Education r = Null then StrV ''Not Provided''
                          else sales_row.Education r),
                       sales_row.Occupation :=
                         (if sales_row.Occupation r = Null then StrV ''Not Provided''
                          else sales_row.Occupation r)\<rparr>
               \<and> (sales_row.OrderDate r = Unparsed Null
                    \<longrightarrow> sales_row.OrderDate r' = Unparsed Null))
        (sales_frames mixed_dates_world 0)
        (sales_frames (snd (transform_to_silver scenario_parse scenario_int_of_str
           scenario_overflow 0 1 mixed_dates_world)) 0)
   \<and> list_all2 (\<lambda>r r'. r' = r\<lparr>Year := Year r'\<rparr>)
        (forecast_frames mixed_dates_world 1)
        (forecast_frames (snd (transform_to_silver scenario_parse scenario_int_of_str
           scenario_overflow 0 1 mixed_dates_world)) 1)"
proof -
  let ?T = "transform_to_silver scenario_parse scenario_int_of_str scenario_overflow 0 1
              mixed_dates_world"
  have ok: "fst ?T = Inr (0, 1)"
    using mixed_dates_cleaning by (rule conjunct1)
  then have run: "?T = (Inr (0, 1), snd ?T)"
    by (simp add: prod_eq_iff)
  have cols: "map sales_row.Name (sales_frames (snd ?T) 0)
                = [StrV ''Unknown'', StrV ''Unknown'', StrV ''Unknown'']
            \<and> map sales_row.City (sales_frames (snd ?T) 0) = [StrV ''A'', Null, StrV ''A'']"
    unfolding conjunct2 [OF mixed_dates_cleaning] by (simp add: scenario_defs)
  show ?thesis
    using ok cols cleaner_fills_three_fields_and_keeps_the_rest [OF run] by blast
qed

text \<open>
  Claim C6: a second run of the cleaner on the tables a first run returned succeeds,
  returns the same tables, and leaves every table and both cleaned files exactly as the
  first run left them.
\<close>

theorem cleaner_idempotent_on_its_output:
  assumes "transform_to_silver parse int_of_str overflow df_sales df_forecast w = (Inr out, w')"
  shows "fst (transform_to_silver parse int_of_str overflow (fst out) (snd out) w') = Inr out
       \<and> sales_frames (snd (transform_to_silver parse int_of_str overflow (fst out) (snd out) w'))
           = sales_frames w'
       \<and> forecast_frames (snd (transform_to_silver parse int_of_str overflow (fst out) (snd out) w'))
           = forecast_frames w'
       \<and> cleaned_sales_csv (snd (transform_to_silver parse int_of_str overflow (fst out) (snd out) w'))
           = cleaned_sales_csv w'
       \<and> cleaned_forecast_csv (snd (transform_to_silver parse int_of_str overflow (fst out) (snd out) w'))
           = cleaned_forecast_csv w'"
proof -
  let ?S = "sales_frames w df_sales" and ?F = "forecast_frames w df_forecast"
  from world_after_cleaning [OF assms] obtain dates years where
    d: "to_datetime parse (map sales_row.OrderDate ?S) = Inr dates" and
    y: "astype_int int_of_str overflow (map Year ?F) = Inr years" and
    out: "out = (df_sales, df_forecast)" and
    sf: "sales_frames w' = (sales_frames w)(df_sales := map2 cleaned_sales_row ?S dates)" and
    ff: "forecast_frames w' =
           (forecast_frames w)(df_forecast := map2 (\<lambda>r y. r\<lparr>Year := y\<rparr>) ?F years)" and
    cs: "cleaned_sales_csv w' = Some (sales_frames w' df_sales)" and
    cf: "cleaned_forecast_csv w' = Some (forecast_frames w' df_forecast)" and
    nc: "\<not> sales_columnless w df_sales" "\<not> forecast_columnless w df_forecast" and
    sc: "sales_columnless w' = sales_columnless w" and
    fc: "forecast_columnless w' = forecast_columnless w"
    by blast
  let ?S' = "map2 cleaned_sales_row ?S dates"
  let ?F' = "map2 (\<lambda>r y. r\<lparr>Year := y\<rparr>) ?F years"
  from d have "map (to_datetime_cell parse (map sales_row.OrderDate ?S) \<circ> sales_row.OrderDate) ?S
                 = map Some dates"
    by (simp add: to_datetime_Inr)
  then have ld: "length ?S = length dates" by (metis length_map)
  from y have "map (astype_int_cell int_of_str overflow (map Year ?F) \<circ> Year) ?F = map Some years"
    by (simp add: astype_int_Inr)
  then have ly: "length ?F = length years" by (metis length_map)
  have dates': "map sales_row.OrderDate ?S' = dates"
    using ld by (rule map_of_map2_snd) simp
  have years': "map Year ?F' = years"
    using ly by (rule map_of_map2_snd) simp
  have sw: "sales_frames w' df_sales = ?S'" by (simp add: sf)
  have fw: "forecast_frames w' df_forecast = ?F'" by (simp add: ff)
  have d2: "to_datetime parse (map sales_row.OrderDate (sales_frames w' df_sales)) = Inr dates"
    unfolding sw dates' by (rule to_datetime_fixed [OF d])
  have y2: "astype_int int_of_str overflow (map Year (forecast_frames w' df_forecast)) = Inr years"
    unfolding fw years' by (rule astype_int_fixed [OF y])
  have s2: "map2 cleaned_sales_row (sales_frames w' df_sales) dates = sales_frames w' df_sales"
    unfolding sw using ld by (rule map2_idem) (rule cleaned_sales_row_again)
  have f2: "map2 (\<lambda>r y. r\<lparr>Year := y\<rparr>) (forecast_frames w' df_forecast) years
              = forecast_frames w' df_forecast"
    unfolding fw using ly by (rule map2_idem) simp
  show ?thesis
    using world_when_cleaning_succeeds [OF d2 y2] nc sc fc
    by (simp add: out s2 f2 cs cf)
qed


text \<open>
  Claim C6 on the scenario's tables.
\<close>

theorem cleaner_idempotent_on_its_output_witness:
  "fst (transform_to_silver scenario_parse scenario_int_of_str scenario_overflow 0 1
          (snd (transform_to_silver scenario_parse scenario_int_of_str scenario_overflow 0 1 scenario_world)))
     = Inr (0, 1)
   \<and> sales_frames (snd (transform_to_silver scenario_parse scenario_int_of_str scenario_overflow 0 1
          (snd (transform_to_silver scenario_parse scenario_int_of_str scenario_overflow 0 1 scenario_world))))
     = sales_frames (snd (transform_to_silver scenario_parse scenario_int_of_str scenario_overflow 0 1 scenario_world))
   \<and> forecast_frames (snd (transform_to_silver scenario_parse scenario_int_of_str scenario_overflow 0 1
          (snd (transform_to_silver scenario_parse scenario_int_of_str scenario_overflow 0 1 scenario_world))))
     = forecast_frames (snd (transform_to_silver scenario_parse scenario_int_of_str scenario_overflow 0 1 scenario_world))
   \<and> cleaned_sales_csv (snd (transform_to_silver scenario_parse scenario_int_of_str scenario_overflow 0 1
          (snd (transform_to_silver scenario_parse scenario_int_of_str scenario_overflow 0 1 scenario_world))))
     = cleaned_sales_csv (snd (transform_to_silver scenario_parse scenario_int_of_str scenario_overflow 0 1 scenario_world))
   \<and> cleaned_forecast_csv (snd (transform_to_silver scenario_parse scenario_int_of_str scenario_overflow 0 1
          (snd (transform_to_silver scenario_parse scenario_int_of_str scenario_overflow 0 1 scenario_world))))
     = cleaned_forecast_csv (snd (transform_to_silver scenario_parse scenario_int_of_str scenario_overflow 0 1 scenario_world))"
  using cleaner_idempotent_on_its_output [OF scenario_cleaning_pair]
  by (simp only: fst_conv snd_conv)













subsection \<open>The integrity check\<close>

lemma last_printed_with:
  "last (printed (model_to_gold_with merge_on_geography df_sales df_forecast)) =
     integrity_line (int (length df_sales))
       (int (length (fact_sales (model_to_gold_with merge_on_geography df_sales df_forecast))))"
  by (simp add: model_to_gold_with_def Let_def)

lemma printed_ends_with_last:
  "\<exists>pre. out @ printed (model_to_gold_with merge_on_geography df_sales df_forecast) @ banner
          = pre @ [last (printed (model_to_gold_with merge_on_geography df_sales df_forecast))]
              @ banner"
proof -
  let ?p = "printed (model_to_gold_with merge_on_geography df_sales df_forecast)"
  have "?p \<noteq> []" by (simp add: model_to_gold_with_def Let_def)
  then have "?p = butlast ?p @ [last ?p]" by simp
  then have "out @ ?p @ banner = (out @ butlast ?p) @ [last ?p] @ banner"
    by (metis append.assoc)
  then show ?thesis by blast
qed

lemma fact_sales_with:
  "fact_sales (model_to_gold_with merge_on_geography df_sales df_forecast)
     = map fact_columns
         (merge_on_geography df_sales
            (dim_geo (model_to_gold_with merge_on_geography df_sales df_forecast)))"
  by (simp add: model_to_gold_with_def Let_def)

lemma run_etl_with_Inr:
  assumes "fst (silver_of_run parse int_of_str overflow sales_records forecast_records w)
             = Inr (silver_sales, silver_forecast)"
  shows "run_etl_with merge_on_geography parse int_of_str overflow sales_records forecast_records w =
     (Inr (model_to_gold_with merge_on_geography
             (sales_frames (snd (silver_of_run parse int_of_str overflow sales_records
                                   forecast_records w)) silver_sales)
             (forecast_frames (snd (silver_of_run parse int_of_str overflow sales_records
                                      forecast_records w)) silver_forecast)),
      (snd (silver_of_run parse int_of_str overflow sales_records forecast_records w))
        \<lparr>stdout :=
           stdout (snd (silver_of_run parse int_of_str overflow sales_records forecast_records w))
             @ printed (model_to_gold_with merge_on_geography
                 (sales_frames (snd (silver_of_run parse int_of_str overflow sales_records
                                       forecast_records w)) silver_sales)
                 (forecast_frames (snd (silver_of_run parse int_of_str overflow sales_records
                                          forecast_records w)) silver_forecast))
             @ banner\<rparr>)"
  using assms
  by (cases "silver_of_run parse int_of_str overflow sales_records forecast_records w")
     (simp add: run_etl_with_def Let_def)

lemma run_etl_with_Inl:
  assumes "fst (silver_of_run parse int_of_str overflow sales_records forecast_records w) = Inl e"
  shows "run_etl_with merge_on_geography parse int_of_str overflow sales_records forecast_records w
           = (Inl e, snd (silver_of_run parse int_of_str overflow sales_records forecast_records w))"
  using assms
  by (cases "silver_of_run parse int_of_str overflow sales_records forecast_records w")
     (simp add: run_etl_with_def)

text \<open>
  Claim C4, for stage 3 with any join in the place of the library call, so also for one
  that loses rows. The fact table is what the join returned, reduced to its six columns.
  The last line that stage 3 prints compares its number of rows with the number of sales
  rows that stage 3 was given: for equal numbers it reports success, for different
  numbers it is the warning that names the number of sales rows minus the number of fact
  rows. The check raises nothing: whenever the cleaner has returned its two frames, the
  run returns the tables of stage 3 and has printed the lines of stage 3 and then the
  banner, whichever line the check printed; the only failures of a run are those of the
  cleaner.
\<close>

theorem integrity_check_warns_without_failing:
  "fact_sales (model_to_gold_with merge_on_geography df_sales df_forecast)
     = map fact_columns
         (merge_on_geography df_sales
            (dim_geo (model_to_gold_with merge_on_geography df_sales df_forecast)))
   \<and> (length (fact_sales (model_to_gold_with merge_on_geography df_sales df_forecast))
         = length df_sales
       \<longrightarrow> last (printed (model_to_gold_with merge_on_geography df_sales df_forecast))
            = ''-> Data Integrity Check: Passed (Sales row count maintained)'')
   \<and> (length (fact_sales (model_to_gold_with merge_on_geography df_sales df_forecast))
         \<noteq> length df_sales
       \<longrightarrow> last (printed (model_to_gold_with merge_on_geography df_sales df_forecast))
            = ''!! WARNING: ''
              @ str_int (int (length df_sales)
                  - int (length (fact_sales
                      (model_to_gold_with merge_on_geography df_sales df_forecast))))
              @ '' rows lost during modeling merge!'')
   \<and> (fst (silver_of_run parse int_of_str overflow sales_records forecast_records w)
         = Inr (silver_sales, silver_forecast)
       \<longrightarrow> run_etl_with merge_on_geography parse int_of_str overflow sales_records forecast_records w =
           (Inr (model_to_gold_with merge_on_geography
                   (sales_frames (snd (silver_of_run parse int_of_str overflow sales_records
                                         forecast_records w)) silver_sales)
                   (forecast_frames (snd (silver_of_run parse int_of_str overflow sales_records
                                            forecast_records w)) silver_forecast)),
            (snd (silver_of_run parse int_of_str overflow sales_records forecast_records w))
              \<lparr>stdout :=
                 stdout (snd (silver_of_run parse int_of_str overflow sales_records forecast_records w))
                   @ printed (model_to_gold_with merge_on_geography
                       (sales_frames (snd (silver_of_run parse int_of_str overflow sales_records
                                             forecast_records w)) silver_sales)
                       (forecast_frames (snd (silver_of_run parse int_of_str overflow sales_records
                                                forecast_records w)) silver_forecast))
                   @ banner\<rparr>))
   \<and> (fst (silver_of_run parse int_of_str overflow sales_records forecast_records w) = Inl e
       \<longrightarrow> run_etl_with merge_on_geography parse int_of_str overflow sales_records forecast_records w
            = (Inl e, snd (silver_of_run parse int_of_str overflow sales_records forecast_records w)))"
proof -
  let ?g = "model_to_gold_with merge_on_geography df_sales df_forecast"
  have line: "last (printed ?g) =
      integrity_line (int (length df_sales)) (int (length (fact_sales ?g)))"
    by (rule last_printed_with)
  have passed: "length (fact_sales ?g) = length df_sales
       \<longrightarrow> last (printed ?g) = ''-> Data Integrity Check: Passed (Sales row count maintained)''"
    by (simp add: line integrity_line_def)
  have warned: "length (fact_sales ?g) \<noteq> length df_sales
       \<longrightarrow> last (printed ?g) = ''!! WARNING: ''
              @ str_int (int (length df_sales) - int (length (fact_sales ?g)))
              @ '' rows lost during modeling merge!''"
    by (simp add: line integrity_line_def)
  show ?thesis
    using fact_sales_with [of merge_on_geography df_sales df_forecast] passed warned
      run_etl_with_Inr [of parse int_of_str overflow sales_records forecast_records w
                          silver_sales silver_forecast merge_on_geography]
      run_etl_with_Inl [of parse int_of_str overflow sales_records forecast_records w e
                          merge_on_geography]
    by blast
qed


lemma scenario_silver:
  "fst (silver_of_run scenario_parse scenario_int_of_str scenario_overflow
          scenario_sales_null_city scenario_forecasts empty_world) = Inr (0, 1)
   \<and> sales_frames (snd (silver_of_run scenario_parse scenario_int_of_str scenario_overflow
          scenario_sales_null_city scenario_forecasts empty_world)) 0
       = map (\<lambda>r. r\<lparr>sales_row.OrderDate := Parsed 1672531200000000000,
                     sales_row.Name := StrV ''Unknown'',
                     sales_row.Education := StrV ''Not Provided''\<rparr>)
           scenario_sales_null_city
   \<and> forecast_frames (snd (silver_of_run scenario_parse scenario_int_of_str scenario_overflow
          scenario_sales_null_city scenario_forecasts empty_world)) 1
       = [scenario_forecast\<lparr>Year := NumV 2023\<rparr>,
          \<lparr>Year = NumV 2023, other_columns = [(''ProductKey'', NumV 2)]\<rparr>]"
  by (simp add: silver_of_run_def bronze_of_run_def cleaner_defs scenario_defs)

text \<open>
  Claim C4 on two runs over the sales table with a missing city: with a join that drops
  the row with the missing city the run returns two fact rows for three sales rows,
  warns that one row is lost and prints the banner; with the pandas join the run prints
  the success line and the banner.
\<close>

theorem integrity_check_warns_without_failing_witness:
  "(\<exists>g. fst (run_etl_with null_dropping_join scenario_parse scenario_int_of_str
               scenario_overflow scenario_sales_null_city scenario_forecasts empty_world)
            = Inr g
        \<and> length (fact_sales g) = 2
        \<and> last (printed g) = ''!! WARNING: 1 rows lost during modeling merge!'')
   \<and> (\<exists>pre. stdout (snd (run_etl_with null_dropping_join scenario_parse scenario_int_of_str
                 scenario_overflow scenario_sales_null_city scenario_forecasts empty_world))
            = pre @ [''!! WARNING: 1 rows lost during modeling merge!''] @ banner)
   \<and> (\<exists>pre. stdout (snd (run_etl scenario_parse scenario_int_of_str
                 scenario_overflow scenario_sales_null_city scenario_forecasts empty_world))
            = pre @ [''-> Data Integrity Check: Passed (Sales row count maintained)'']
                @ banner)"
proof -
  let ?S = "map (\<lambda>r. r\<lparr>sales_row.OrderDate := Parsed 1672531200000000000,
                     sales_row.Name := StrV ''Unknown'',
                     sales_row.Education := StrV ''Not Provided''\<rparr>)
              scenario_sales_null_city"
  let ?F = "[scenario_forecast\<lparr>Year := NumV 2023\<rparr>,
            \<lparr>Year = NumV 2023, other_columns = [(''ProductKey'', NumV 2)]\<rparr>]"
  let ?silver = "silver_of_run scenario_parse scenario_int_of_str scenario_overflow
                   scenario_sales_null_city scenario_forecasts empty_world"
  let ?lost = "model_to_gold_with null_dropping_join ?S ?F"
  let ?kept = "model_to_gold_with (merge geo_columns geo_of_dim) ?S ?F"
  have ok: "fst ?silver = Inr (0, 1)"
    and sf: "sales_frames (snd ?silver) 0 = ?S"
    and ff: "forecast_frames (snd ?silver) 1 = ?F"
    using scenario_silver by blast+
  note lost = integrity_check_warns_without_failing
     [of null_dropping_join ?S ?F scenario_parse scenario_int_of_str scenario_overflow
         scenario_sales_null_city scenario_forecasts empty_world 0 1]
  note kept = integrity_check_warns_without_failing
     [of "merge geo_columns geo_of_dim" ?S ?F scenario_parse scenario_int_of_str
         scenario_overflow scenario_sales_null_city scenario_forecasts empty_world 0 1]
  have n_lost: "length (fact_sales ?lost) = 2"
    by (simp add: gold_defs scenario_defs null_dropping_join_def geography_complete_def)
  have n_kept: "length (fact_sales ?kept) = 3"
    by (simp add: gold_defs scenario_defs)
  have n: "length ?S = 3"
    by (simp add: scenario_defs)
  have "last (printed ?lost) = ''!! WARNING: ''
          @ str_int (int (length ?S) - int (length (fact_sales ?lost)))
          @ '' rows lost during modeling merge!''"
    using lost n_lost n by simp
  then have line_lost: "last (printed ?lost) = ''!! WARNING: 1 rows lost during modeling merge!''"
    by (simp only: n n_lost) (simp add: str_int_def str_nat.simps)
  have line_kept: "last (printed ?kept)
                     = ''-> Data Integrity Check: Passed (Sales row count maintained)''"
    using kept n_kept n by simp
  have run_lost: "run_etl_with null_dropping_join scenario_parse scenario_int_of_str
          scenario_overflow scenario_sales_null_city scenario_forecasts empty_world
        = (Inr ?lost, (snd ?silver)\<lparr>stdout := stdout (snd ?silver) @ printed ?lost @ banner\<rparr>)"
    using lost ok by (simp only: sf ff)
  have run_kept: "run_etl scenario_parse scenario_int_of_str
          scenario_overflow scenario_sales_null_city scenario_forecasts empty_world
        = (Inr ?kept, (snd ?silver)\<lparr>stdout := stdout (snd ?silver) @ printed ?kept @ banner\<rparr>)"
    unfolding run_etl_def using kept ok by (simp only: sf ff)
  have 1: "\<exists>g. fst (run_etl_with null_dropping_join scenario_parse scenario_int_of_str
               scenario_overflow scenario_sales_null_city scenario_forecasts empty_world)
            = Inr g
        \<and> length (fact_sales g) = 2
        \<and> last (printed g) = ''!! WARNING: 1 rows lost during modeling merge!''"
    using n_lost line_lost by (simp only: run_lost fst_conv) blast
  have 2: "\<exists>pre. stdout (snd (run_etl_with null_dropping_join scenario_parse scenario_int_of_str
                 scenario_overflow scenario_sales_null_city scenario_forecasts empty_world))
            = pre @ [''!! WARNING: 1 rows lost during modeling merge!''] @ banner"
    using printed_ends_with_last [of "stdout (snd ?silver)" null_dropping_join ?S ?F]
    by (simp only: run_lost snd_conv line_lost) simp
  have 3: "\<exists>pre. stdout (snd (run_etl scenario_parse scenario_int_of_str
                 scenario_overflow scenario_sales_null_city scenario_forecasts empty_world))
            = pre @ [''-> Data Integrity Check: Passed (Sales row count maintained)'']
                @ banner"
    using printed_ends_with_last [of "stdout (snd ?silver)" "merge geo_columns geo_of_dim" ?S ?F]
    by (simp only: run_kept snd_conv line_kept) simp
  show ?thesis using 1 2 3 by blast
qed


end
